theory Spec2Isabelle
  imports Complex_Main "HOL-Library.Sublist" "HOL-Library.Multiset"
begin

section \<open>Python strings\<close>

text \<open>
  The extractor of \<^verbatim>\<open>lastfm.py\<close> works on Python \<^verbatim>\<open>str\<close> values. A string is modelled
  as a \<open>char list\<close> whose characters are the code points 0 to 255 (Latin-1), which covers
  every character of the reference tables of the source (the taxonomy has three keys with
  an accented letter). \<open>length\<close> is then Python's \<^verbatim>\<open>len\<close>. The character classes below
  are the ones Python 3 uses on that range for \<^verbatim>\<open>str.lower\<close>, \<^verbatim>\<open>str.strip\<close> and for
  \<^verbatim>\<open>\w\<close>, \<^verbatim>\<open>\s\<close>, \<^verbatim>\<open>\d\<close> in a \<^verbatim>\<open>str\<close> pattern.
\<close>

definition code :: "char \<Rightarrow> nat" where
  "code c = of_char c"

definition is_upper :: "char \<Rightarrow> bool" where
  "is_upper c = ((65 \<le> code c \<and> code c \<le> 90) \<or> (192 \<le> code c \<and> code c \<le> 214)
     \<or> (216 \<le> code c \<and> code c \<le> 222))"

definition lower_char :: "char \<Rightarrow> char" where
  "lower_char c = (if is_upper c then char_of (code c + 32) else c)"

text \<open>\<^verbatim>\<open>s.lower()\<close>\<close>

definition lower :: "string \<Rightarrow> string" where
  "lower s = map lower_char s"

text \<open>Whitespace, as \<^verbatim>\<open>str.isspace\<close> and \<^verbatim>\<open>\s\<close> see it.\<close>

definition is_space :: "char \<Rightarrow> bool" where
  "is_space c = ((9 \<le> code c \<and> code c \<le> 13) \<or> (28 \<le> code c \<and> code c \<le> 32)
     \<or> code c = 133 \<or> code c = 160)"

definition is_digit :: "char \<Rightarrow> bool" where
  "is_digit c = (48 \<le> code c \<and> code c \<le> 57)"

text \<open>Word characters, \<^verbatim>\<open>\w\<close>: letters, digits and other numeric characters, and the underscore.\<close>

definition is_word :: "char \<Rightarrow> bool" where
  "is_word c = (is_digit c \<or> (65 \<le> code c \<and> code c \<le> 90) \<or> code c = 95
     \<or> (97 \<le> code c \<and> code c \<le> 122) \<or> code c = 170 \<or> code c = 178 \<or> code c = 179
     \<or> code c = 181 \<or> code c = 185 \<or> code c = 186 \<or> (188 \<le> code c \<and> code c \<le> 190)
     \<or> (192 \<le> code c \<and> code c \<le> 214) \<or> (216 \<le> code c \<and> code c \<le> 246)
     \<or> 248 \<le> code c)"

text \<open>\<^verbatim>\<open>s.strip()\<close>\<close>

definition strip :: "string \<Rightarrow> string" where
  "strip s = rev (dropWhile is_space (rev (dropWhile is_space s)))"

text \<open>\<^verbatim>\<open>sub in s\<close> for two strings: \<open>sub\<close> occurs in \<open>s\<close> as a contiguous block.\<close>

fun str_in :: "string \<Rightarrow> string \<Rightarrow> bool" where
  "str_in sub [] = (sub = [])"
| "str_in sub (c # cs) = (prefix sub (c # cs) \<or> str_in sub cs)"

text \<open>\<^verbatim>\<open>re.sub(r'[^\w\s-]', '', tag)\<close>: every character that is not a word character,
  whitespace or a hyphen is deleted.\<close>

definition remove_special_chars :: "string \<Rightarrow> string" where
  "remove_special_chars s = filter (\<lambda>c. is_word c \<or> is_space c \<or> c = CHR ''-'') s"

text \<open>\<^verbatim>\<open>re.sub(r'\s+', ' ', tag)\<close>: every maximal run of whitespace becomes one space.\<close>

function normalize_whitespace :: "string \<Rightarrow> string" where
  "normalize_whitespace [] = []"
| "normalize_whitespace (c # cs) =
     (if is_space c then CHR '' '' # normalize_whitespace (dropWhile is_space cs)
      else c # normalize_whitespace cs)"
  by pat_completeness auto
termination
  by (relation "measure length") (auto simp: less_Suc_eq_le length_dropWhile_le)


section \<open>Regular expressions: the fragment of \<^verbatim>\<open>re\<close> the pattern table uses\<close>

text \<open>
  The non-genre patterns are pattern strings handed to \<^verbatim>\<open>re.match(pattern, tag, re.IGNORECASE)\<close>.
  They use the anchors \<^verbatim>\<open>^\<close> and \<^verbatim>\<open>$\<close>, the dot, \<^verbatim>\<open>\d\<close>, literal characters and the
  quantifiers \<^verbatim>\<open>*\<close>, \<^verbatim>\<open>?\<close> and \<^verbatim>\<open>{n}\<close> on a single character. \<open>re_compile\<close> reads a
  pattern string of that fragment into a list of items; it returns \<open>None\<close> where Python
  raises \<^verbatim>\<open>re.error\<close> (a quantifier with nothing to repeat) and for syntax outside the
  fragment (groups, classes, alternation, other escapes, lazy quantifiers, ranges).
\<close>

datatype atom = Bol | Eol | Digit | Dot | Lit char

datatype quant = Once | Star | Opt

datatype suffix = Quant quant | Times nat

type_synonym regex = "(atom \<times> quant) list"

definition backslash :: char where
  "backslash = CHR 0x5C"

definition newline :: char where
  "newline = CHR 0x0A"

fun parse_atom :: "string \<Rightarrow> (atom \<times> string) option" where
  "parse_atom [] = None"
| "parse_atom (c # cs) =
     (if c = CHR ''^'' then Some (Bol, cs)
      else if c = CHR ''$'' then Some (Eol, cs)
      else if c = CHR ''.'' then Some (Dot, cs)
      else if c = backslash then
        (case cs of [] \<Rightarrow> None
         | d # ds \<Rightarrow> if d = CHR ''d'' then Some (Digit, ds) else None)
      else if c \<in> set ''*+?{}[]()|'' then None
      else Some (Lit c, cs))"

definition digit_val :: "char \<Rightarrow> nat" where
  "digit_val c = code c - 48"

definition decimal :: "string \<Rightarrow> nat" where
  "decimal ds = foldl (\<lambda>n c. 10 * n + digit_val c) 0 ds"

fun parse_quant :: "string \<Rightarrow> (suffix \<times> string) option" where
  "parse_quant [] = Some (Quant Once, [])"
| "parse_quant (c # cs) =
     (if c = CHR ''*'' then Some (Quant Star, cs)
      else if c = CHR ''?'' then Some (Quant Opt, cs)
      else if c = CHR ''{'' then
        (let ds = takeWhile is_digit cs; rest = dropWhile is_digit cs
         in if ds \<noteq> [] \<and> rest \<noteq> [] \<and> hd rest = CHR ''}''
            then Some (Times (decimal ds), tl rest) else None)
      else Some (Quant Once, c # cs))"

fun zero_width :: "atom \<Rightarrow> bool" where
  "zero_width Bol = True"
| "zero_width Eol = True"
| "zero_width _ = False"

fun items :: "atom \<Rightarrow> suffix \<Rightarrow> regex" where
  "items a (Times n) = replicate n (a, Once)"
| "items a (Quant q) = [(a, q)]"

lemma parse_atom_length:
  "parse_atom s = Some (a, r) \<Longrightarrow> length r < length s"
  by (cases s) (auto split: if_splits list.splits)

lemma parse_quant_length:
  assumes "parse_quant s = Some (q, r)"
  shows "length r \<le> length s"
proof (cases s)
  case Nil
  with assms show ?thesis by simp
next
  case (Cons c cs)
  have "length (dropWhile is_digit cs) \<le> length cs"
    by (rule length_dropWhile_le)
  then have "length (tl (dropWhile is_digit cs)) \<le> length cs"
    by simp
  with assms Cons show ?thesis
    by (auto simp: Let_def split: if_splits)
qed

function re_compile :: "string \<Rightarrow> regex option" where
  "re_compile s =
     (if s = [] then Some []
      else case parse_atom s of None \<Rightarrow> None
        | Some (a, r) \<Rightarrow>
            (case parse_quant r of None \<Rightarrow> None
             | Some (q, r') \<Rightarrow>
                 if zero_width a \<and> q \<noteq> Quant Once then None
                 else (case re_compile r' of None \<Rightarrow> None
                       | Some rest \<Rightarrow> Some (items a q @ rest))))"
  by pat_completeness auto
termination
proof (relation "measure length")
  fix s a r q r' and xa :: "atom \<times> string" and xb :: "suffix \<times> string"
  assume "parse_atom s = Some xa" "(a, r) = xa" "parse_quant r = Some xb" "(q, r') = xb"
  then have "length r < length s" "length r' \<le> length r"
    using parse_atom_length parse_quant_length by metis+
  then show "(r', s) \<in> measure length" by simp
qed simp

declare re_compile.simps [simp del]

text \<open>
  Matching. \<open>atom_ok a c\<close>: the atom \<open>a\<close> accepts the character \<open>c\<close> under
  \<^verbatim>\<open>re.IGNORECASE\<close> (a literal accepts both cases of its letter; the dot accepts everything
  but the newline). \<open>re_run r b s\<close>: some match of \<open>r\<close> starts at the head of \<open>s\<close>;
  \<open>b\<close> says that this head is the start of the whole string (where \<^verbatim>\<open>^\<close> holds), and
  \<^verbatim>\<open>$\<close> holds at the end of the string and before a newline that ends it. The items past
  the match need not reach the end of \<open>s\<close>: this is \<^verbatim>\<open>re.match\<close>, not \<^verbatim>\<open>re.fullmatch\<close>.
\<close>

fun atom_ok :: "atom \<Rightarrow> char \<Rightarrow> bool" where
  "atom_ok Digit c = is_digit c"
| "atom_ok Dot c = (c \<noteq> newline)"
| "atom_ok (Lit p) c = (lower_char c = lower_char p)"
| "atom_ok Bol c = False"
| "atom_ok Eol c = False"

fun re_run :: "regex \<Rightarrow> bool \<Rightarrow> string \<Rightarrow> bool" where
  "re_run [] b s = True"
| "re_run ((Bol, q) # r) b s = (b \<and> re_run r b s)"
| "re_run ((Eol, q) # r) b s = ((s = [] \<or> s = [newline]) \<and> re_run r b s)"
| "re_run ((a, Star) # r) b [] = re_run r b []"
| "re_run ((a, Star) # r) b (c # cs) =
     (re_run r b (c # cs) \<or> (atom_ok a c \<and> re_run ((a, Star) # r) False cs))"
| "re_run ((a, Opt) # r) b [] = re_run r b []"
| "re_run ((a, Opt) # r) b (c # cs) = (re_run r b (c # cs) \<or> (atom_ok a c \<and> re_run r False cs))"
| "re_run ((a, Once) # r) b [] = False"
| "re_run ((a, Once) # r) b (c # cs) = (atom_ok a c \<and> re_run r False cs)"

text \<open>\<^verbatim>\<open>re.match(pattern, tag, re.IGNORECASE)\<close> as a truth value: \<open>Some True\<close> for a match
  object, \<open>Some False\<close> for \<^verbatim>\<open>None\<close>.\<close>

definition re_match :: "string \<Rightarrow> string \<Rightarrow> bool option" where
  "re_match pattern s = map_option (\<lambda>r. re_run r True s) (re_compile pattern)"


section \<open>String similarity: the \<^verbatim>\<open>fuzzywuzzy\<close> functions the extractor calls\<close>

text \<open>
  \<^verbatim>\<open>process.extractOne(tag, keys, scorer=fuzz.ratio)\<close> runs the library's default
  processor over the query and over every choice, scores each pair with \<^verbatim>\<open>fuzz.ratio\<close>,
  keeps the choices whose score reaches the cutoff 0 and returns the first one of maximal
  score with its score (Python's \<^verbatim>\<open>max\<close>), or \<^verbatim>\<open>None\<close> when nothing is kept.

  The default processor \<^verbatim>\<open>utils.full_process\<close> replaces every non-word character by a
  space, lower-cases and strips.
\<close>

definition full_process :: "string \<Rightarrow> string" where
  "full_process s = strip (lower (map (\<lambda>c. if is_word c then c else CHR '' '') s))"

text \<open>
  \<^verbatim>\<open>fuzz.ratio(s1, s2)\<close> is 100 for equal strings, 0 when one of them is empty, and
  otherwise \<^verbatim>\<open>int(round(100 * SequenceMatcher(None, s1, s2).ratio()))\<close>, where the ratio of
  \<^verbatim>\<open>difflib\<close> is twice the number of matched characters over the sum of the two lengths.
  The matched characters are found by taking the longest common block (the leftmost one
  in \<open>s1\<close>, and for that the leftmost one in \<open>s2\<close>) and matching the parts to its left
  and the parts to its right in the same way. (\<^verbatim>\<open>difflib\<close> treats frequent characters of
  a second string of 200 or more characters as junk; no taxonomy key is that long.)
  Python rounds a value that lies half-way to the even neighbour.
\<close>

fun common_prefix_length :: "string \<Rightarrow> string \<Rightarrow> nat" where
  "common_prefix_length (x # xs) (y # ys) = (if x = y then Suc (common_prefix_length xs ys) else 0)"
| "common_prefix_length xs ys = 0"

text \<open>
  \<open>find_longest_match a b\<close> is \<open>(i, j, k)\<close>: the block of \<open>k\<close> characters at offset
  \<open>i\<close> of \<open>a\<close> and at offset \<open>j\<close> of \<open>b\<close>. The start offsets are scanned in order and a
  candidate replaces the best block only when it is strictly longer, so that among the
  longest blocks the one with the least \<open>i\<close>, then the least \<open>j\<close>, is returned;
  \<open>(0, 0, 0)\<close> when the strings share no character.
\<close>

fun scan_b :: "string \<Rightarrow> string \<Rightarrow> nat \<Rightarrow> nat \<Rightarrow> nat \<times> nat \<times> nat \<Rightarrow> nat \<times> nat \<times> nat" where
  "scan_b a [] i j best = best"
| "scan_b a (y # ys) i j (besti, bestj, bestsize) =
     scan_b a ys i (Suc j)
       (let k = common_prefix_length a (y # ys)
        in if bestsize < k then (i, j, k) else (besti, bestj, bestsize))"

fun scan_a :: "string \<Rightarrow> string \<Rightarrow> nat \<Rightarrow> nat \<times> nat \<times> nat \<Rightarrow> nat \<times> nat \<times> nat" where
  "scan_a [] b i best = best"
| "scan_a (x # xs) b i best = scan_a xs b (Suc i) (scan_b (x # xs) b i 0 best)"

definition find_longest_match :: "string \<Rightarrow> string \<Rightarrow> nat \<times> nat \<times> nat" where
  "find_longest_match a b = scan_a a b 0 (0, 0, 0)"

definition in_range :: "nat \<Rightarrow> nat \<Rightarrow> nat \<times> nat \<times> nat \<Rightarrow> bool" where
  "in_range m n best = (case best of (i, j, k) \<Rightarrow> 0 < k \<longrightarrow> i < m \<and> j < n)"

lemma scan_b_in_range:
  "in_range m (j + length ys) best \<Longrightarrow> i < m \<Longrightarrow> in_range m (j + length ys) (scan_b a ys i j best)"
proof (induction ys arbitrary: j best)
  case Nil
  then show ?case by simp
next
  case (Cons y ys)
  obtain bi bj bk where best: "best = (bi, bj, bk)"
    by (cases best)
  let ?best' = "let k = common_prefix_length a (y # ys)
        in if bk < k then (i, j, k) else (bi, bj, bk)"
  have "in_range m (Suc j + length ys) ?best'"
    using Cons.prems by (auto simp: in_range_def best Let_def)
  from Cons.IH [OF this Cons.prems(2)] show ?case
    by (simp add: best)
qed

lemma scan_a_in_range:
  "in_range (i + length xs) n best \<Longrightarrow> in_range (i + length xs) n (scan_a xs b i best)" if "n = length b"
proof (induction xs arbitrary: i best)
  case Nil
  then show ?case by simp
next
  case (Cons x xs)
  have "in_range (Suc i + length xs) (0 + length b) (scan_b (x # xs) b i 0 best)"
    using Cons.prems that by (intro scan_b_in_range) auto
  then have "in_range (Suc i + length xs) n (scan_b (x # xs) b i 0 best)"
    using that by simp
  from Cons.IH [OF this] show ?case
    by simp
qed

lemma find_longest_match_bounds:
  assumes "find_longest_match a b = (i, j, k)" and "0 < k"
  shows "i < length a \<and> j < length b"
proof -
  have "in_range (0 + length a) (length b) (scan_a a b 0 (0, 0, 0))"
    by (rule scan_a_in_range) (simp_all add: in_range_def)
  with assms show ?thesis
    by (simp add: find_longest_match_def in_range_def)
qed

function matching_size :: "string \<Rightarrow> string \<Rightarrow> nat" where
  "matching_size a b =
     (case find_longest_match a b of (i, j, k) \<Rightarrow>
        if k = 0 then 0
        else k + matching_size (take i a) (take j b)
               + matching_size (drop (i + k) a) (drop (j + k) b))"
  by pat_completeness auto
termination
proof (relation "measure (\<lambda>(a, b). length a + length b)")
  show "wf (measure (\<lambda>(a, b). length a + length b))"
    by simp
next
  fix a b i j k and y :: "nat \<times> nat"
  assume "(i, y) = find_longest_match a b" "(j, k) = y" "k \<noteq> 0"
  then have "i < length a \<and> j < length b"
    using find_longest_match_bounds [of a b i j k] by auto
  then show "((take i a, take j b), a, b) \<in> measure (\<lambda>(a, b). length a + length b)"
    by auto
next
  fix a b i j k and y :: "nat \<times> nat"
  assume "(i, y) = find_longest_match a b" "(j, k) = y" "k \<noteq> 0"
  then have "i < length a \<and> j < length b"
    using find_longest_match_bounds [of a b i j k] by auto
  then show "((drop (i + k) a, drop (j + k) b), a, b) \<in> measure (\<lambda>(a, b). length a + length b)"
    using \<open>k \<noteq> 0\<close> by auto
qed

declare matching_size.simps [simp del]

definition round_half_even :: "nat \<Rightarrow> nat \<Rightarrow> nat" where
  "round_half_even n d =
     (let q = n div d; r = n mod d
      in if 2 * r < d then q else if d < 2 * r then q + 1 else if even q then q else q + 1)"

definition fuzz_ratio :: "string \<Rightarrow> string \<Rightarrow> int" where
  "fuzz_ratio s1 s2 =
     (if s1 = s2 then 100
      else if s1 = [] \<or> s2 = [] then 0
      else int (round_half_even (200 * matching_size s1 s2) (length s1 + length s2)))"

text \<open>Python's \<^verbatim>\<open>max(xs, key=snd)\<close> on a non-empty sequence \<open>x, xs\<close>: a later element
  replaces the best one only when its key is strictly greater.\<close>

definition max_by_score :: "(string \<times> int) \<Rightarrow> (string \<times> int) list \<Rightarrow> string \<times> int" where
  "max_by_score x xs = foldl (\<lambda>best y. if snd best < snd y then y else best) x xs"

definition extractOne :: "string \<Rightarrow> string list \<Rightarrow> (string \<times> int) option" where
  "extractOne query choices =
     (let processed_query = full_process query;
          scored = map (\<lambda>choice. (choice, fuzz_ratio processed_query (full_process choice))) choices
      in case filter (\<lambda>(choice, score). 0 \<le> score) scored of
           [] \<Rightarrow> None
         | x # xs \<Rightarrow> Some (max_by_score x xs))"


section \<open>The genre extractor\<close>

subsection \<open>Configuration, input values and the reference tables\<close>

text \<open>
  \<^verbatim>\<open>GenreExtractionConfig\<close> is a dataclass of five fields; the two thresholds that are
  Python floats are kept as real numbers. An entry of the input list is a string or
  something else (\<^verbatim>\<open>isinstance(tag, str)\<close> tells them apart).
\<close>

record GenreExtractionConfig =
  fuzzy_threshold :: int
  min_tag_length :: int
  max_tag_length :: int
  keyword_threshold :: real
  context_weight :: real

definition default_config :: GenreExtractionConfig where
  "default_config = \<lparr>fuzzy_threshold = 80, min_tag_length = 2, max_tag_length = 50,
     keyword_threshold = 6 / 10, context_weight = 3 / 10\<rparr>"

datatype pyval = Str string | NonStr

text \<open>
  The extractor object: its configuration and the five tables that \<^verbatim>\<open>__init__\<close> loads.
  A dictionary is an association list in insertion order, which is the order in which
  \<^verbatim>\<open>list(d.keys())\<close> and \<^verbatim>\<open>d.items()\<close> run; no dictionary literal of the source repeats a
  key.
\<close>

record GenreExtractor =
  config :: GenreExtractionConfig
  known_genres :: "(string \<times> string) list"
  genre_keywords :: "string list"
  non_genre_patterns :: "string list"
  non_genre_keywords :: "string list"
  genre_families :: "(string \<times> string list) list"

definition load_genre_taxonomy :: "(string \<times> string) list" where
  "load_genre_taxonomy = [
   (''rock'', ''rock''), (''pop'', ''pop''), (''hip-hop'', ''hip-hop''),
   (''hiphop'', ''hip-hop''), (''hip hop'', ''hip-hop''), (''electronic'', ''electronic''),
   (''jazz'', ''jazz''), (''blues'', ''blues''), (''country'', ''country''),
   (''classical'', ''classical''), (''reggae'', ''reggae''), (''metal'', ''metal''),
   (''punk'', ''punk''), (''folk'', ''folk''), (''indie'', ''indie''),
   (''alternative'', ''alternative''), (''rnb'', ''rnb''), (''soul'', ''soul''),
   (''funk'', ''funk''), (''house'', ''house''), (''techno'', ''techno''),
   (''dubstep'', ''dubstep''), (''ambient'', ''ambient''),
   (''experimental'', ''experimental''), (''trance'', ''trance''),
   (''drum and bass'', ''drum and bass''), (''dnb'', ''drum and bass''),
   (''breakbeat'', ''breakbeat''), (''garage'', ''garage''), (''trap'', ''trap''),
   (''drill'', ''drill''), (''grime'', ''grime''), (''synthwave'', ''synthwave''),
   (''vaporwave'', ''vaporwave''), (''chillwave'', ''chillwave''),
   (''darkwave'', ''darkwave''), (''new wave'', ''new wave''), (''post-punk'', ''post-punk''),
   (''post-rock'', ''post-rock''), (''shoegaze'', ''shoegaze''),
   (''dream pop'', ''dream pop''), (''britpop'', ''britpop''), (''grunge'', ''grunge''),
   (''emo'', ''emo''), (''screamo'', ''screamo''), (''hardcore'', ''hardcore''),
   (''metalcore'', ''metalcore''), (''deathcore'', ''deathcore''),
   (''black metal'', ''black metal''), (''death metal'', ''death metal''),
   (''thrash metal'', ''thrash metal''), (''heavy metal'', ''heavy metal''),
   (''power metal'', ''power metal''), (''progressive metal'', ''progressive metal''),
   (''doom metal'', ''doom metal''), (''sludge metal'', ''sludge metal''),
   (''stoner rock'', ''stoner rock''), (''psychedelic rock'', ''psychedelic rock''),
   (''garage rock'', ''garage rock''), (''surf rock'', ''surf rock''),
   (''rockabilly'', ''rockabilly''), (''skiffle'', ''skiffle''), (''bebop'', ''bebop''),
   (''swing'', ''swing''), (''big band'', ''big band''), (''smooth jazz'', ''smooth jazz''),
   (''fusion'', ''fusion''), (''free jazz'', ''free jazz''), (''cool jazz'', ''cool jazz''),
   (''hard bop'', ''hard bop''), (''delta blues'', ''delta blues''),
   (''chicago blues'', ''chicago blues''), (''electric blues'', ''electric blues''),
   (''rhythm and blues'', ''rhythm and blues''), (''motown'', ''motown''),
   (''neo-soul'', ''neo-soul''), (''northern soul'', ''northern soul''),
   (''southern soul'', ''southern soul''), (''gospel'', ''gospel''),
   (''spiritual'', ''spiritual''), (''bluegrass'', ''bluegrass''),
   (''americana'', ''americana''), (''alt-country'', ''alt-country''),
   (''outlaw country'', ''outlaw country''), (''honky-tonk'', ''honky-tonk''),
   (''western swing'', ''western swing''), (''dancehall'', ''dancehall''),
   (''roots reggae'', ''roots reggae''), (''dub reggae'', ''dub reggae''),
   (''ska punk'', ''ska punk''), (''two-tone'', ''two-tone''), (''calypso'', ''calypso''),
   (''soca'', ''soca''), (''salsa'', ''salsa''), (''merengue'', ''merengue''),
   (''bachata'', ''bachata''), (''cumbia'', ''cumbia''), (''reggaeton'', ''reggaeton''),
   (''latin pop'', ''latin pop''), (''bossa nova'', ''bossa nova''), (''samba'', ''samba''),
   ((''forr'' @ [CHR 0xF3]), (''forr'' @ [CHR 0xF3])), (''mpb'', ''mpb''),
   ((''tropic'' @ [CHR 0xE1] @ ''lia''), (''tropic'' @ [CHR 0xE1] @ ''lia'')),
   (''fado'', ''fado''), (''flamenco'', ''flamenco''), (''tango'', ''tango''),
   (''mariachi'', ''mariachi''), (''ranchera'', ''ranchera''),
   ((''norte'' @ [CHR 0xF1] @ ''o''), (''norte'' @ [CHR 0xF1] @ ''o'')),
   (''conjunto'', ''conjunto''), (''tejano'', ''tejano''), (''zydeco'', ''zydeco''),
   (''cajun'', ''cajun''), (''celtic'', ''celtic''),
   (''irish traditional'', ''irish traditional''),
   (''scottish traditional'', ''scottish traditional''), (''klezmer'', ''klezmer''),
   (''polka'', ''polka''), (''waltz'', ''waltz''), (''mazurka'', ''mazurka''),
   (''tarantella'', ''tarantella''), (''fandango'', ''fandango'')]"

definition load_non_genre_patterns :: "string list" where
  "load_non_genre_patterns = [
   (''^'' @ [CHR 0x5C] @ ''d{2}s$''), (''^'' @ [CHR 0x5C] @ ''d{4}s?$''), ''.*seen live.*'',
   ''.*favorites?.*'', ''.*recommended.*'', ''.*love.*'', ''.*awesome.*'', ''.*best.*'',
   ''.*top.*'', ''.*favorite.*'', ''.*male.*'', ''.*female.*'', ''.*british.*'',
   ''.*american.*'', ''.*canadian.*'', ''.*australian.*'', ''.*german.*'', ''.*french.*'',
   ''.*italian.*'', ''.*chill.*'', ''.*relax.*'', ''.*emotional.*'', ''.*romantic.*'',
   ''.*sad.*'', ''.*happy.*'', ''.*energetic.*'', ''.*melancholic.*'', ''.*upbeat.*'',
   ''.*mellow.*'', ''.*nostalgic.*'', ''.*party.*'', ''.*dance.*'', ''.*summer.*'',
   ''.*winter.*'', ''.*night.*'', ''.*morning.*'', ''.*driving.*'', ''.*workout.*'',
   ''.*study.*'', ''.*background.*'', ''.*instrumental.*'', ''.*acoustic.*'', ''.*live.*'',
   ''.*cover.*'', ''.*remix.*'', ''.*radio.*'', ''.*edit.*'', ''.*version.*'', ''.*mix.*'',
   ''.*single.*'', ''.*album.*'', ''.*ep.*'', ''.*compilation.*'', ''.*soundtrack.*'',
   ''.*theme.*'', ''.*christmas.*'', ''.*holiday.*'']"

definition load_genre_keywords :: "string list" where
  "load_genre_keywords = [
   ''core'', ''wave'', ''step'', ''hop'', ''house'', ''techno'', ''trance'', ''metal'',
   ''rock'', ''punk'', ''folk'', ''jazz'', ''blues'', ''soul'', ''funk'', ''disco'',
   ''reggae'', ''ska'', ''dub'', ''ambient'', ''drone'', ''noise'', ''industrial'', ''gothic'',
   ''dark'', ''black'', ''death'', ''thrash'', ''speed'', ''power'', ''prog'', ''post'',
   ''neo'', ''new'', ''old'', ''classic'', ''modern'', ''contemporary'', ''traditional'',
   ''experimental'', ''alternative'', ''indie'', ''underground'', ''mainstream'',
   ''commercial'', ''lo-fi'', ''hi-fi'', ''electronica'', ''electronic'', ''digital'',
   ''analog'', ''acoustic'', ''electric'', ''bass'', ''drum'', ''beat'', ''rhythm'', ''tempo'',
   ''bpm'', ''major'', ''minor'', ''key'', ''scale'', ''mode'', ''harmony'', ''melody'',
   ''vocal'', ''instrumental'', ''orchestral'', ''symphonic'', ''chamber'', ''ensemble'',
   ''band'', ''group'', ''solo'', ''duo'', ''trio'', ''quartet'', ''quintet'', ''sextet'',
   ''septet'', ''octet'']"

definition load_non_genre_keywords :: "string list" where
  "load_non_genre_keywords = [
   ''seen'', ''live'', ''concert'', ''favorite'', ''best'', ''top'', ''love'', ''awesome'',
   ''great'', ''good'', ''bad'', ''terrible'', ''amazing'', ''perfect'', ''beautiful'',
   ''ugly'', ''boring'', ''exciting'', ''recommended'', ''suggestion'', ''playlist'',
   ''album'', ''single'', ''ep'', ''compilation'', ''soundtrack'', ''theme'', ''cover'',
   ''remix'', ''edit'', ''version'', ''mix'', ''radio'', ''clean'', ''explicit'', ''censored'',
   ''uncensored'', ''remastered'', ''deluxe'', ''special'', ''limited'', ''edition'',
   ''bonus'', ''track'', ''disc'', ''cd'', ''vinyl'', ''digital'', ''download'', ''stream'',
   ''youtube'', ''spotify'', ''apple'', ''amazon'', ''google'', ''bandcamp'', ''soundcloud'',
   ''male'', ''female'', ''vocalist'', ''singer'', ''musician'', ''artist'', ''band'',
   ''group'', ''duo'', ''trio'', ''quartet'', ''solo'', ''british'', ''american'',
   ''canadian'', ''australian'', ''german'', ''french'', ''italian'', ''spanish'',
   ''japanese'', ''korean'', ''chinese'', ''russian'', ''brazilian'', ''mexican'', ''indian'',
   ''summer'', ''winter'', ''spring'', ''autumn'', ''fall'', ''christmas'', ''holiday'',
   ''birthday'', ''party'', ''wedding'', ''funeral'', ''morning'', ''afternoon'', ''evening'',
   ''night'', ''midnight'', ''driving'', ''walking'', ''running'', ''workout'', ''exercise'',
   ''study'', ''work'', ''sleep'', ''relax'', ''chill'', ''background'', ''emotional'',
   ''sad'', ''happy'', ''angry'', ''depressed'', ''excited'', ''romantic'', ''nostalgic'',
   ''melancholic'', ''upbeat'', ''mellow'', ''energetic'', ''calm'', ''peaceful'',
   ''aggressive'', ''violent'']"

definition load_genre_families :: "(string \<times> string list) list" where
  "load_genre_families = [
   (''rock'', [''rock'', ''alternative'', ''indie'', ''grunge'', ''punk'', ''metal'']),
   (''electronic'', [''electronic'', ''techno'', ''house'', ''trance'', ''dubstep'', ''ambient'']),
   (''hip_hop'', [''hip-hop'', ''rap'', ''trap'', ''drill'', ''boom'', ''bap'']),
   (''jazz'', [''jazz'', ''bebop'', ''swing'', ''fusion'', ''smooth'', ''free'']),
   (''blues'', [''blues'', ''rhythm'', ''delta'', ''chicago'', ''electric'']),
   (''country'', [''country'', ''folk'', ''bluegrass'', ''americana'', ''western'']),
   (''classical'', [''classical'', ''baroque'', ''romantic'', ''modern'', ''opera'']),
   (''reggae'', [''reggae'', ''ska'', ''dub'', ''dancehall'', ''roots'']),
   (''pop'', [''pop'', ''dance'', ''disco'', ''synthpop'', ''electropop'']),
   (''r&b'', [''rnb'', ''soul'', ''funk'', ''motown'', ''neo-soul''])]"


text \<open>The indicator list inside \<^verbatim>\<open>_is_genre_by_context\<close>.\<close>

definition musical_indicators :: "string list" where
  "musical_indicators = [''music'', ''sound'', ''beat'', ''rhythm'', ''style'', ''wave'']"

text \<open>\<^verbatim>\<open>GenreExtractor(config)\<close>: \<^verbatim>\<open>config or GenreExtractionConfig()\<close>, then the tables.\<close>

definition GenreExtractor_init :: "GenreExtractionConfig option \<Rightarrow> GenreExtractor" where
  "GenreExtractor_init cfg =
     \<lparr>config = (case cfg of None \<Rightarrow> default_config | Some c \<Rightarrow> c),
      known_genres = load_genre_taxonomy,
      genre_keywords = load_genre_keywords,
      non_genre_patterns = load_non_genre_patterns,
      non_genre_keywords = load_non_genre_keywords,
      genre_families = load_genre_families\<rparr>"


subsection \<open>Stage 1: cleaning\<close>

text \<open>
  The body of the loop of \<^verbatim>\<open>_clean_tags\<close>: lower-case and strip first, then delete the
  special characters, then normalise the whitespace.
\<close>

definition clean_tag :: "string \<Rightarrow> string" where
  "clean_tag tag = normalize_whitespace (remove_special_chars (strip (lower tag)))"

fun clean_tags_loop :: "GenreExtractor \<Rightarrow> pyval list \<Rightarrow> string list \<Rightarrow> string list" where
  "clean_tags_loop self [] cleaned = cleaned"
| "clean_tags_loop self (NonStr # tags) cleaned = clean_tags_loop self tags cleaned"
| "clean_tags_loop self (Str tag # tags) cleaned =
     (let tag' = clean_tag tag
      in if min_tag_length (config self) \<le> int (length tag')
            \<and> int (length tag') \<le> max_tag_length (config self)
         then clean_tags_loop self tags (cleaned @ [tag'])
         else clean_tags_loop self tags cleaned)"

definition clean_tags :: "GenreExtractor \<Rightarrow> pyval list \<Rightarrow> string list" where
  "clean_tags self tags = clean_tags_loop self tags []"

subsection \<open>Stage 2: the rule filter\<close>

text \<open>
  The inner loop of \<^verbatim>\<open>_filter_non_genres\<close> tries the patterns in order and stops at the
  first match. \<open>None\<close> is the exception of a pattern that does not compile, which is only
  met when no earlier pattern has matched.
\<close>

fun matches_non_genre :: "string list \<Rightarrow> string \<Rightarrow> bool option" where
  "matches_non_genre [] tag = Some False"
| "matches_non_genre (pattern # patterns) tag =
     (case re_match pattern tag of
        None \<Rightarrow> None
      | Some True \<Rightarrow> Some True
      | Some False \<Rightarrow> matches_non_genre patterns tag)"

fun filter_non_genres_loop :: "GenreExtractor \<Rightarrow> string list \<Rightarrow> string list \<Rightarrow> string list option" where
  "filter_non_genres_loop self [] filtered = Some filtered"
| "filter_non_genres_loop self (tag # tags) filtered =
     (case matches_non_genre (non_genre_patterns self) tag of
        None \<Rightarrow> None
      | Some is_non_genre \<Rightarrow>
          if \<not> is_non_genre then filter_non_genres_loop self tags (filtered @ [tag])
          else filter_non_genres_loop self tags filtered)"

definition filter_non_genres :: "GenreExtractor \<Rightarrow> string list \<Rightarrow> string list option" where
  "filter_non_genres self tags = filter_non_genres_loop self tags []"

subsection \<open>Stage 3: resolving one tag\<close>

text \<open>\<^verbatim>\<open>tag in self.known_genres\<close> and \<^verbatim>\<open>self.known_genres[tag]\<close>.\<close>

definition is_known_genre :: "GenreExtractor \<Rightarrow> string \<Rightarrow> bool" where
  "is_known_genre self tag = (map_of (known_genres self) tag \<noteq> None)"

definition fuzzy_match_genre :: "GenreExtractor \<Rightarrow> string \<Rightarrow> string option" where
  "fuzzy_match_genre self tag =
     (case extractOne tag (map fst (known_genres self)) of
        None \<Rightarrow> None
      | Some (key, score) \<Rightarrow>
          if fuzzy_threshold (config self) \<le> score then map_of (known_genres self) key
          else None)"

definition has_non_genre_keyword :: "GenreExtractor \<Rightarrow> string \<Rightarrow> bool" where
  "has_non_genre_keyword self tag =
     list_ex (\<lambda>ng_keyword. str_in ng_keyword (lower tag)) (non_genre_keywords self)"

fun is_genre_by_keywords_loop :: "GenreExtractor \<Rightarrow> string list \<Rightarrow> string \<Rightarrow> bool" where
  "is_genre_by_keywords_loop self [] tag = False"
| "is_genre_by_keywords_loop self (keyword # keywords) tag =
     (if str_in keyword (lower tag) \<and> \<not> has_non_genre_keyword self tag then True
      else is_genre_by_keywords_loop self keywords tag)"

definition is_genre_by_keywords :: "GenreExtractor \<Rightarrow> string \<Rightarrow> bool" where
  "is_genre_by_keywords self tag = is_genre_by_keywords_loop self (genre_keywords self) tag"

fun in_genre_family_loop :: "(string \<times> string list) list \<Rightarrow> string \<Rightarrow> bool" where
  "in_genre_family_loop [] tag = False"
| "in_genre_family_loop ((family, genres) # families) tag =
     (if list_ex (\<lambda>genre. str_in genre (lower tag)) genres then True
      else in_genre_family_loop families tag)"

definition is_genre_by_context :: "GenreExtractor \<Rightarrow> string \<Rightarrow> string list \<Rightarrow> bool" where
  "is_genre_by_context self tag all_tags =
     (let known_genre_count = length (filter (is_known_genre self) all_tags)
      in if 2 \<le> known_genre_count then
           (if list_ex (\<lambda>indicator. str_in indicator (lower tag)) musical_indicators then True
            else in_genre_family_loop (genre_families self) tag)
         else False)"

text \<open>
  \<^verbatim>\<open>if fuzzy_match:\<close> tests the truth value of an optional string: \<^verbatim>\<open>None\<close> and the
  empty string are false. So does \<^verbatim>\<open>if genre:\<close> in the loop of \<^verbatim>\<open>extract_genres\<close>.
\<close>

definition truthy :: "string option \<Rightarrow> bool" where
  "truthy r = (r \<noteq> None \<and> r \<noteq> Some [])"

definition extract_genre_from_tag :: "GenreExtractor \<Rightarrow> string \<Rightarrow> string list \<Rightarrow> string option" where
  "extract_genre_from_tag self tag all_tags =
     (if is_known_genre self tag then map_of (known_genres self) tag
      else if truthy (fuzzy_match_genre self tag) then fuzzy_match_genre self tag
      else if is_genre_by_keywords self tag then Some tag
      else if is_genre_by_context self tag all_tags then Some tag
      else None)"

subsection \<open>Stage 4: normalising and removing duplicates\<close>




subsection \<open>The pipeline\<close>




section \<open>What the specification says about cleaning\<close>

text \<open>
  The specification describes the normaliser in words: lower-case, remove every character
  that is not alphanumeric, whitespace or a hyphen, collapse runs of whitespace, and trim
  the result. \<open>spec_clean_tag\<close> follows these words, in this order, to be compared with
  \<open>clean_tag\<close>, which follows the source. An alphanumeric character is a word character
  other than the underscore.
\<close>

definition is_alnum :: "char \<Rightarrow> bool" where
  "is_alnum c = (is_word c \<and> c \<noteq> CHR ''_'')"

definition spec_clean_tag :: "string \<Rightarrow> string" where
  "spec_clean_tag tag =
     strip (normalize_whitespace
       (filter (\<lambda>c. is_alnum c \<or> is_space c \<or> c = CHR ''-'') (lower tag)))"

text \<open>The string entries of an input list, in order.\<close>

fun strings_of :: "pyval list \<Rightarrow> string list" where
  "strings_of [] = []"
| "strings_of (Str s # vs) = s # strings_of vs"
| "strings_of (NonStr # vs) = strings_of vs"

section \<open>Evaluation of the character functions\<close>

lemma is_upper_bit5:
  "is_upper (Char b0 b1 b2 b3 b4 b5 b6 b7) \<Longrightarrow> \<not> b5"
  by (cases b0; cases b1; cases b2; cases b3; cases b4; cases b5; cases b6; cases b7;
      simp add: is_upper_def code_def)

lemma lower_char_Char:
  "lower_char (Char b0 b1 b2 b3 b4 b5 b6 b7) =
     (if is_upper (Char b0 b1 b2 b3 b4 b5 b6 b7) then Char b0 b1 b2 b3 b4 True b6 b7
      else Char b0 b1 b2 b3 b4 b5 b6 b7)"
proof (cases "is_upper (Char b0 b1 b2 b3 b4 b5 b6 b7)")
  case True
  then have "\<not> b5"
    by (rule is_upper_bit5)
  then have "of_char (Char b0 b1 b2 b3 b4 True b6 b7)
      = of_char (Char b0 b1 b2 b3 b4 b5 b6 b7) + (32::nat)"
    by simp
  then have "char_of (of_char (Char b0 b1 b2 b3 b4 b5 b6 b7) + (32::nat))
      = Char b0 b1 b2 b3 b4 True b6 b7"
    by (metis char_of_char)
  with True show ?thesis
    by (simp add: lower_char_def code_def)
next
  case False
  then show ?thesis
    by (simp add: lower_char_def)
qed

lemmas char_eval = lower_char_Char is_upper_def is_space_def is_digit_def is_word_def
  is_alnum_def code_def

text \<open>
  The values of the character functions on the characters that the tables and the examples
  are made of, as rewrite rules: evaluating a tag then costs one step per character.
\<close>

lemma lower_char_fixed:
  "list_all (\<lambda>c. lower_char c = c) ''abcdefghijklmnopqrstuvwxyz0123456789 -_()''"
  by (simp add: char_eval)

lemma lower_char_upper:
  "lower_char CHR ''A'' = CHR ''a'' \<and> lower_char CHR ''B'' = CHR ''b'' \<and>
   lower_char CHR ''C'' = CHR ''c'' \<and> lower_char CHR ''D'' = CHR ''d'' \<and>
   lower_char CHR ''E'' = CHR ''e'' \<and> lower_char CHR ''F'' = CHR ''f'' \<and>
   lower_char CHR ''G'' = CHR ''g'' \<and> lower_char CHR ''H'' = CHR ''h'' \<and>
   lower_char CHR ''I'' = CHR ''i'' \<and> lower_char CHR ''J'' = CHR ''j'' \<and>
   lower_char CHR ''K'' = CHR ''k'' \<and> lower_char CHR ''L'' = CHR ''l'' \<and>
   lower_char CHR ''M'' = CHR ''m'' \<and> lower_char CHR ''N'' = CHR ''n'' \<and>
   lower_char CHR ''O'' = CHR ''o'' \<and> lower_char CHR ''P'' = CHR ''p'' \<and>
   lower_char CHR ''Q'' = CHR ''q'' \<and> lower_char CHR ''R'' = CHR ''r'' \<and>
   lower_char CHR ''S'' = CHR ''s'' \<and> lower_char CHR ''T'' = CHR ''t'' \<and>
   lower_char CHR ''U'' = CHR ''u'' \<and> lower_char CHR ''V'' = CHR ''v'' \<and>
   lower_char CHR ''W'' = CHR ''w'' \<and> lower_char CHR ''X'' = CHR ''x'' \<and>
   lower_char CHR ''Y'' = CHR ''y'' \<and> lower_char CHR ''Z'' = CHR ''z''"
  by (simp add: char_eval)

lemma is_word_yes:
  "list_all is_word ''abcdefghijklmnopqrstuvwxyz0123456789_ABCDEFGHIJKLMNOPQRSTUVWXYZ''"
  by (simp add: char_eval)

lemma is_word_no: "list_all (\<lambda>c. \<not> is_word c) '' -()''"
  by (simp add: char_eval)

lemma is_space_no:
  "list_all (\<lambda>c. \<not> is_space c)
     ''abcdefghijklmnopqrstuvwxyz0123456789_ABCDEFGHIJKLMNOPQRSTUVWXYZ-()''"
  by (simp add: char_eval)

lemma is_space_yes: "is_space CHR '' ''"
  by (simp add: char_eval)

lemma is_digit_yes: "list_all is_digit ''0123456789''"
  by (simp add: char_eval)

lemma is_digit_no:
  "list_all (\<lambda>c. \<not> is_digit c) ''abcdefghijklmnopqrstuvwxyz _-()''"
  by (simp add: char_eval)

lemmas char_lits =
  lower_char_fixed [unfolded list_all_Cons_iff list_all_Nil_iff] lower_char_upper
  is_word_yes [unfolded list_all_Cons_iff list_all_Nil_iff] is_word_no [unfolded list_all_Cons_iff list_all_Nil_iff]
  is_space_no [unfolded list_all_Cons_iff list_all_Nil_iff] is_space_yes
  is_digit_yes [unfolded list_all_Cons_iff list_all_Nil_iff] is_digit_no [unfolded list_all_Cons_iff list_all_Nil_iff]

lemmas string_eval = char_lits lower_def strip_def remove_special_chars_def is_alnum_def

section \<open>Stage 1: the cleaning loop\<close>

lemma clean_tags_loop_eq:
  "clean_tags_loop self tags cleaned =
     cleaned @ filter (\<lambda>c. min_tag_length (config self) \<le> int (length c)
                          \<and> int (length c) \<le> max_tag_length (config self))
                 (map clean_tag (strings_of tags))"
  by (induction self tags cleaned rule: clean_tags_loop.induct) (simp_all add: Let_def)

lemma clean_tags_eq:
  "clean_tags self tags =
     filter (\<lambda>c. min_tag_length (config self) \<le> int (length c)
                 \<and> int (length c) \<le> max_tag_length (config self))
       (map clean_tag (strings_of tags))"
  by (simp add: clean_tags_def clean_tags_loop_eq)



lemma config_init [simp]:
  "config (GenreExtractor_init None) = default_config"
  "config (GenreExtractor_init (Some c)) = c"
  by (simp_all add: GenreExtractor_init_def)

lemma tables_init [simp]:
  "known_genres (GenreExtractor_init cfg) = load_genre_taxonomy"
  "genre_keywords (GenreExtractor_init cfg) = load_genre_keywords"
  "non_genre_patterns (GenreExtractor_init cfg) = load_non_genre_patterns"
  "non_genre_keywords (GenreExtractor_init cfg) = load_non_genre_keywords"
  "genre_families (GenreExtractor_init cfg) = load_genre_families"
  by (simp_all add: GenreExtractor_init_def)

lemma default_config_fields [simp]:
  "fuzzy_threshold default_config = 80"
  "min_tag_length default_config = 2"
  "max_tag_length default_config = 50"
  by (simp_all add: default_config_def)

lemma clean_tag_paren_rock: "clean_tag ''( rock )'' = '' rock ''"
  by (simp add: clean_tag_def string_eval)

lemma clean_tag_underscore: "clean_tag ''a_b'' = ''a_b''"
  by (simp add: clean_tag_def string_eval)

text \<open>
  C4: the normaliser is to lower-case each string entry, remove every character that is
  not alphanumeric, whitespace or a hyphen, collapse its whitespace and trim the result.
  The source calls \<^verbatim>\<open>strip\<close> and its comment reads \<^verbatim>\<open>Remove special chars except hyphens\<close>,
  but it trims before it removes characters and its pattern \<^verbatim>\<open>[^\w\s-]\<close> spares the
  underscore. At the two inputs below the code therefore returns a tag with a space on
  each side and a tag with its underscore, where cleaning as specified returns
  \<^verbatim>\<open>rock\<close> and \<^verbatim>\<open>ab\<close>.
\<close>

theorem C4_clean_tags_edge_space_and_underscore:
  "clean_tags (GenreExtractor_init None) [Str ''( rock )''] = ['' rock '']
   \<and> spec_clean_tag ''( rock )'' = ''rock''
   \<and> clean_tags (GenreExtractor_init None) [Str ''a_b''] = [''a_b'']
   \<and> spec_clean_tag ''a_b'' = ''ab''"
  by (simp add: clean_tags_eq clean_tag_paren_rock clean_tag_underscore
      spec_clean_tag_def string_eval)


section \<open>Stage 2: the rule filter\<close>

text \<open>
  A pattern that compiles either matches a tag or does not, so over a table of patterns
  that all compile the inner loop computes a disjunction and the outer loop a filter.
\<close>

definition compiles :: "string \<Rightarrow> bool" where
  "compiles pattern = (re_compile pattern \<noteq> None)"

definition is_non_genre :: "string list \<Rightarrow> string \<Rightarrow> bool" where
  "is_non_genre patterns tag = list_ex (\<lambda>pattern. re_match pattern tag = Some True) patterns"

lemma matches_non_genre_eq:
  "list_all compiles patterns \<Longrightarrow>
   matches_non_genre patterns tag = Some (is_non_genre patterns tag)"
  by (induction patterns)
     (auto simp: compiles_def is_non_genre_def re_match_def split: option.splits bool.splits)

lemma filter_non_genres_loop_eq:
  assumes "list_all compiles (non_genre_patterns self)"
  shows "filter_non_genres_loop self tags filtered =
     Some (filtered @ filter (\<lambda>tag. \<not> is_non_genre (non_genre_patterns self) tag) tags)"
  by (induction tags arbitrary: filtered) (simp_all add: matches_non_genre_eq [OF assms])

lemma filter_non_genres_eq:
  "list_all compiles (non_genre_patterns self) \<Longrightarrow>
   filter_non_genres self tags =
     Some (filter (\<lambda>tag. \<not> is_non_genre (non_genre_patterns self) tag) tags)"
  by (simp add: filter_non_genres_def filter_non_genres_loop_eq)

lemma is_non_genre_set:
  "set patterns = set patterns' \<Longrightarrow> is_non_genre patterns tag = is_non_genre patterns' tag"
  by (simp add: is_non_genre_def list_ex_iff)

subsection \<open>Patterns without special characters\<close>

definition special :: "char \<Rightarrow> bool" where
  "special c = (c \<in> set ''^$.*+?{}[]()|'' \<or> c = backslash)"

definition lits :: "string \<Rightarrow> regex" where
  "lits w = map (\<lambda>c. (Lit c, Once)) w"

lemma parse_quant_plain:
  "cs = [] \<or> \<not> special (hd cs) \<Longrightarrow> parse_quant cs = Some (Quant Once, cs)"
  by (cases cs) (auto simp: special_def)

lemma re_compile_literal:
  "\<forall>c \<in> set w. \<not> special c \<Longrightarrow> re_compile w = Some (lits w)"
proof (induction w)
  case Nil
  then show ?case
    by (simp add: re_compile.simps lits_def)
next
  case (Cons c cs)
  have atom: "parse_atom (c # cs) = Some (Lit c, cs)"
    using Cons.prems by (auto simp: special_def)
  have quant: "parse_quant cs = Some (Quant Once, cs)"
    using Cons.prems by (intro parse_quant_plain) (cases cs, auto)
  have "re_compile cs = Some (lits cs)"
    using Cons by simp
  then show ?case
    by (subst re_compile.simps)
       (simp add: atom quant lits_def del: parse_atom.simps parse_quant.simps)
qed

lemma re_run_lits:
  "re_run (lits w) b s = prefix (lower w) (lower s)"
proof (induction w arbitrary: b s)
  case Nil
  then show ?case
    by (simp add: lits_def lower_def)
next
  case (Cons c cs)
  then show ?case
    by (cases s) (auto simp: lits_def lower_def)
qed

lemma re_match_literal:
  "\<forall>c \<in> set w. \<not> special c \<Longrightarrow> re_match w s = Some (prefix (lower w) (lower s))"
  by (simp add: re_match_def re_compile_literal re_run_lits)

subsection \<open>The pattern table of the source\<close>

text \<open>The table, compiled: what \<open>re_compile\<close> returns for its 57 patterns.\<close>

definition compiled_non_genre_patterns :: "regex list" where
  "compiled_non_genre_patterns = [
   [(Bol, Once), (Digit, Once), (Digit, Once), (Lit (CHR ''s''), Once), (Eol, Once)],
   [(Bol, Once), (Digit, Once), (Digit, Once), (Digit, Once), (Digit, Once),
    (Lit (CHR ''s''), Opt), (Eol, Once)],
   (Dot, Star) # lits ''seen live'' @ [(Dot, Star)],
   (Dot, Star) # lits ''favorite'' @ [(Lit (CHR ''s''), Opt), (Dot, Star)],
   (Dot, Star) # lits ''recommended'' @ [(Dot, Star)],
   (Dot, Star) # lits ''love'' @ [(Dot, Star)], (Dot, Star) # lits ''awesome'' @ [(Dot, Star)],
   (Dot, Star) # lits ''best'' @ [(Dot, Star)], (Dot, Star) # lits ''top'' @ [(Dot, Star)],
   (Dot, Star) # lits ''favorite'' @ [(Dot, Star)],
   (Dot, Star) # lits ''male'' @ [(Dot, Star)], (Dot, Star) # lits ''female'' @ [(Dot, Star)],
   (Dot, Star) # lits ''british'' @ [(Dot, Star)],
   (Dot, Star) # lits ''american'' @ [(Dot, Star)],
   (Dot, Star) # lits ''canadian'' @ [(Dot, Star)],
   (Dot, Star) # lits ''australian'' @ [(Dot, Star)],
   (Dot, Star) # lits ''german'' @ [(Dot, Star)],
   (Dot, Star) # lits ''french'' @ [(Dot, Star)],
   (Dot, Star) # lits ''italian'' @ [(Dot, Star)],
   (Dot, Star) # lits ''chill'' @ [(Dot, Star)], (Dot, Star) # lits ''relax'' @ [(Dot, Star)],
   (Dot, Star) # lits ''emotional'' @ [(Dot, Star)],
   (Dot, Star) # lits ''romantic'' @ [(Dot, Star)], (Dot, Star) # lits ''sad'' @ [(Dot, Star)],
   (Dot, Star) # lits ''happy'' @ [(Dot, Star)],
   (Dot, Star) # lits ''energetic'' @ [(Dot, Star)],
   (Dot, Star) # lits ''melancholic'' @ [(Dot, Star)],
   (Dot, Star) # lits ''upbeat'' @ [(Dot, Star)],
   (Dot, Star) # lits ''mellow'' @ [(Dot, Star)],
   (Dot, Star) # lits ''nostalgic'' @ [(Dot, Star)],
   (Dot, Star) # lits ''party'' @ [(Dot, Star)], (Dot, Star) # lits ''dance'' @ [(Dot, Star)],
   (Dot, Star) # lits ''summer'' @ [(Dot, Star)],
   (Dot, Star) # lits ''winter'' @ [(Dot, Star)], (Dot, Star) # lits ''night'' @ [(Dot, Star)],
   (Dot, Star) # lits ''morning'' @ [(Dot, Star)],
   (Dot, Star) # lits ''driving'' @ [(Dot, Star)],
   (Dot, Star) # lits ''workout'' @ [(Dot, Star)],
   (Dot, Star) # lits ''study'' @ [(Dot, Star)],
   (Dot, Star) # lits ''background'' @ [(Dot, Star)],
   (Dot, Star) # lits ''instrumental'' @ [(Dot, Star)],
   (Dot, Star) # lits ''acoustic'' @ [(Dot, Star)],
   (Dot, Star) # lits ''live'' @ [(Dot, Star)], (Dot, Star) # lits ''cover'' @ [(Dot, Star)],
   (Dot, Star) # lits ''remix'' @ [(Dot, Star)], (Dot, Star) # lits ''radio'' @ [(Dot, Star)],
   (Dot, Star) # lits ''edit'' @ [(Dot, Star)], (Dot, Star) # lits ''version'' @ [(Dot, Star)],
   (Dot, Star) # lits ''mix'' @ [(Dot, Star)], (Dot, Star) # lits ''single'' @ [(Dot, Star)],
   (Dot, Star) # lits ''album'' @ [(Dot, Star)], (Dot, Star) # lits ''ep'' @ [(Dot, Star)],
   (Dot, Star) # lits ''compilation'' @ [(Dot, Star)],
   (Dot, Star) # lits ''soundtrack'' @ [(Dot, Star)],
   (Dot, Star) # lits ''theme'' @ [(Dot, Star)],
   (Dot, Star) # lits ''christmas'' @ [(Dot, Star)],
   (Dot, Star) # lits ''holiday'' @ [(Dot, Star)]]"

lemma replicate_numeral:
  "replicate (numeral k) x = x # replicate (pred_numeral k) x"
  by (simp add: numeral_eq_Suc)

lemmas compile_eval = re_compile.simps Let_def backslash_def char_eval decimal_def
  digit_val_def replicate_numeral

lemma compile_table:
  "map re_compile load_non_genre_patterns = map Some compiled_non_genre_patterns"
  by (simp add: load_non_genre_patterns_def compiled_non_genre_patterns_def lits_def
      compile_eval)

lemma patterns_compile: "list_all compiles load_non_genre_patterns"
proof -
  have "list_all (\<lambda>r. r \<noteq> None) (map re_compile load_non_genre_patterns)"
    unfolding compile_table by (simp add: list_all_iff)
  then show ?thesis
    by (simp add: list_all_iff compiles_def)
qed

lemma is_non_genre_compiled:
  "is_non_genre load_non_genre_patterns tag =
     list_ex (\<lambda>r. re_run r True tag) compiled_non_genre_patterns"
proof -
  have "is_non_genre load_non_genre_patterns tag =
      list_ex (\<lambda>c. map_option (\<lambda>r. re_run r True tag) c = Some True)
        (map re_compile load_non_genre_patterns)"
    by (simp add: is_non_genre_def re_match_def list_ex_iff)
  also have "\<dots> = list_ex (\<lambda>r. re_run r True tag) compiled_non_genre_patterns"
    unfolding compile_table by (simp add: list_ex_iff)
  finally show ?thesis .
qed

lemmas non_genre_eval = is_non_genre_compiled compiled_non_genre_patterns_def lits_def
  char_lits newline_def

lemma filter_init:
  "filter_non_genres (GenreExtractor_init cfg) tags =
     Some (filter (\<lambda>tag. \<not> is_non_genre load_non_genre_patterns tag) tags)"
  by (simp add: filter_non_genres_eq patterns_compile)

lemma non_genre_rock: "\<not> is_non_genre load_non_genre_patterns ''rock''"
  by (simp add: non_genre_eval)

lemma non_genre_90s: "is_non_genre load_non_genre_patterns ''90s''"
  by (simp add: non_genre_eval)

lemma non_genre_dubstep: "is_non_genre load_non_genre_patterns ''dubstep''"
  by (simp add: non_genre_eval)


text \<open>
  C8: over the pattern table of the source, in any order, the rule filter keeps exactly
  the tags that no pattern matches, in their input order; so the kept tags are a
  subsequence of the input, and a permutation of the table changes nothing. A match is
  one that starts at the head of the tag and need not reach its end: for a pattern without
  special characters, it is the test that the pattern is a prefix of the tag, letter case
  aside.
\<close>

theorem C8_rule_filter:
  assumes "mset patterns = mset load_non_genre_patterns"
  shows "\<exists>kept.
      kept = filter (\<lambda>tag. \<not> (\<exists>p \<in> set load_non_genre_patterns. re_match p tag = Some True)) tags
    \<and> filter_non_genres (GenreExtractor_init cfg) tags = Some kept
    \<and> filter_non_genres (GenreExtractor_init cfg \<lparr>non_genre_patterns := patterns\<rparr>) tags = Some kept
    \<and> subseq kept tags
    \<and> (\<forall>w s. (\<forall>c \<in> set w. \<not> special c) \<longrightarrow> re_match w s = Some (prefix (lower w) (lower s)))"
proof -
  let ?self' = "GenreExtractor_init cfg \<lparr>non_genre_patterns := patterns\<rparr>"
  have set_eq: "set patterns = set load_non_genre_patterns"
    using assms by (rule mset_eq_setD)
  have "list_all compiles patterns"
    using patterns_compile set_eq by (simp add: list_all_iff)
  then have "filter_non_genres ?self' tags =
      Some (filter (\<lambda>tag. \<not> is_non_genre patterns tag) tags)"
    by (simp add: filter_non_genres_eq)
  then have perm: "filter_non_genres ?self' tags =
      Some (filter (\<lambda>tag. \<not> is_non_genre load_non_genre_patterns tag) tags)"
    by (simp add: is_non_genre_set [OF set_eq])
  have ex: "is_non_genre load_non_genre_patterns =
      (\<lambda>tag. \<exists>p \<in> set load_non_genre_patterns. re_match p tag = Some True)"
    by (rule ext) (simp add: is_non_genre_def list_ex_iff)
  show ?thesis
    using perm filter_init [of cfg tags] re_match_literal
    by (simp add: ex)
qed

text \<open>
  The table reversed, on four tags: the decade marker and the tag that contains
  \<^verbatim>\<open>ep\<close> are dropped and the duplicate stays. The pattern \<^verbatim>\<open>ep\<close> alone matches
  \<^verbatim>\<open>EPic\<close> and not \<^verbatim>\<open>deep\<close>.
\<close>

theorem C8_rule_filter_witness:
  "filter_non_genres (GenreExtractor_init None \<lparr>non_genre_patterns := rev load_non_genre_patterns\<rparr>)
     [''rock'', ''90s'', ''rock'', ''dubstep''] = Some [''rock'', ''rock'']
   \<and> re_match ''ep'' ''EPic'' = Some True \<and> re_match ''ep'' ''deep'' = Some False"
proof -
  have perm: "mset (rev load_non_genre_patterns) = mset load_non_genre_patterns"
    by simp
  have ex: "\<And>tag. (\<exists>p \<in> set load_non_genre_patterns. re_match p tag = Some True)
      = is_non_genre load_non_genre_patterns tag"
    by (simp add: is_non_genre_def list_ex_iff)
  have lit: "\<forall>c \<in> set ''ep''. \<not> special c"
    by (simp add: special_def backslash_def)
  from C8_rule_filter [OF perm, of "[''rock'', ''90s'', ''rock'', ''dubstep'']" None]
  show ?thesis
    using lit by (simp add: ex non_genre_rock non_genre_90s non_genre_dubstep lower_def char_lits)
qed


section \<open>Stage 3: fuzzy matching\<close>

text \<open>
  The score that \<open>extractOne\<close> gives a choice: the ratio of the processed query and the
  processed choice.
\<close>

definition score :: "string \<Rightarrow> string \<Rightarrow> int" where
  "score query choice = fuzz_ratio (full_process query) (full_process choice)"

lemma fuzz_ratio_nonneg: "0 \<le> fuzz_ratio a b"
  by (simp add: fuzz_ratio_def)

lemma max_by_score_first_best:
  assumes "max_by_score x xs = r"
  shows "r \<in> set (x # xs) \<and> (\<forall>y \<in> set (x # xs). snd y \<le> snd r)
    \<and> r = hd (filter (\<lambda>y. snd y = snd r) (x # xs))"
  using assms
proof (induction xs arbitrary: x)
  case Nil
  then show ?case by (simp add: max_by_score_def)
next
  case (Cons y ys)
  show ?case
  proof (cases "snd x < snd y")
    case True
    then have "max_by_score y ys = r"
      using Cons.prems by (simp add: max_by_score_def)
    from Cons.IH [OF this]
    have mem: "r \<in> set (y # ys)" and le: "\<forall>z \<in> set (y # ys). snd z \<le> snd r"
      and first: "r = hd (filter (\<lambda>z. snd z = snd r) (y # ys))"
      by blast+
    have "snd y \<le> snd r"
      using le by simp
    with True have "snd x < snd r"
      by simp
    then have "filter (\<lambda>z. snd z = snd r) (x # y # ys) = filter (\<lambda>z. snd z = snd r) (y # ys)"
      by simp
    with first have "r = hd (filter (\<lambda>z. snd z = snd r) (x # y # ys))"
      by simp
    moreover have "\<forall>z \<in> set (x # y # ys). snd z \<le> snd r"
      using le \<open>snd x < snd r\<close> by simp
    ultimately show ?thesis
      using mem by simp
  next
    case False
    then have "max_by_score x ys = r"
      using Cons.prems by (simp add: max_by_score_def)
    from Cons.IH [OF this]
    have mem: "r \<in> set (x # ys)" and le: "\<forall>z \<in> set (x # ys). snd z \<le> snd r"
      and first: "r = hd (filter (\<lambda>z. snd z = snd r) (x # ys))"
      by blast+
    have xr: "snd x \<le> snd r"
      using le by simp
    with False have yr: "snd y \<le> snd r"
      by simp
    have "hd (filter (\<lambda>z. snd z = snd r) (x # y # ys)) = hd (filter (\<lambda>z. snd z = snd r) (x # ys))"
    proof (cases "snd x = snd r")
      case True
      then show ?thesis by simp
    next
      case neq: False
      with xr False have "snd y \<noteq> snd r"
        by simp
      with neq show ?thesis by simp
    qed
    with first have "r = hd (filter (\<lambda>z. snd z = snd r) (x # y # ys))"
      by simp
    moreover have "\<forall>z \<in> set (x # y # ys). snd z \<le> snd r"
      using le yr by simp
    moreover have "r \<in> set (x # y # ys)"
      using mem by auto
    ultimately show ?thesis
      by blast
  qed
qed

lemma extractOne_eq:
  "extractOne query choices =
     (case choices of [] \<Rightarrow> None
      | c # cs \<Rightarrow> Some (max_by_score (c, score query c) (map (\<lambda>c. (c, score query c)) cs)))"
proof -
  have "filter (\<lambda>(choice, s). 0 \<le> s) (map (\<lambda>c. (c, score query c)) choices)
      = map (\<lambda>c. (c, score query c)) choices"
    by (simp add: score_def fuzz_ratio_nonneg)
  then show ?thesis
    by (cases choices) (simp_all add: extractOne_def Let_def score_def)
qed

lemma extractOne_first_best:
  assumes "key \<in> set choices" and "\<forall>k \<in> set choices. score query k \<le> score query key"
  shows "extractOne query choices =
     Some (hd (filter (\<lambda>k. score query k = score query key) choices), score query key)"
proof -
  obtain c cs where choices: "choices = c # cs"
    using assms(1) by (cases choices) auto
  define r where "r = max_by_score (c, score query c) (map (\<lambda>c. (c, score query c)) cs)"
  let ?scored = "map (\<lambda>c. (c, score query c)) choices"
  have r: "r \<in> set ?scored" "\<forall>y \<in> set ?scored. snd y \<le> snd r"
    "r = hd (filter (\<lambda>y. snd y = snd r) ?scored)"
    using max_by_score_first_best [OF r_def [symmetric]] by (simp_all add: choices)
  have "(key, score query key) \<in> set ?scored"
    using assms(1) by auto
  with r(2) have "score query key \<le> snd r"
    by fastforce
  moreover have "snd r \<le> score query key"
    using r(1) assms(2) by auto
  ultimately have best: "snd r = score query key"
    by simp
  have "filter (\<lambda>y. snd y = score query key) ?scored
      = map (\<lambda>c. (c, score query c)) (filter (\<lambda>k. score query k = score query key) choices)"
    by (simp add: filter_map comp_def)
  moreover have "filter (\<lambda>k. score query k = score query key) choices \<noteq> []"
    using assms(1) by (auto simp: filter_empty_conv)
  ultimately have "r = (hd (filter (\<lambda>k. score query k = score query key) choices), score query key)"
    using r(3) best by (simp add: hd_map)
  then show ?thesis
    by (simp add: extractOne_eq choices r_def)
qed


lemma fuzzy_match_genre_eq:
  assumes "key \<in> set (map fst (known_genres self))"
    and "\<forall>k \<in> set (map fst (known_genres self)). score tag k \<le> score tag key"
  shows "fuzzy_match_genre self tag =
     (if fuzzy_threshold (config self) \<le> score tag key
      then map_of (known_genres self)
             (hd (filter (\<lambda>k. score tag k = score tag key) (map fst (known_genres self))))
      else None)"
  by (simp add: fuzzy_match_genre_def extractOne_first_best [OF assms])

lemma first_best_is_key:
  assumes "key \<in> set keys"
  shows "hd (filter (\<lambda>k. score tag k = score tag key) keys) \<in> set keys
    \<and> score tag (hd (filter (\<lambda>k. score tag k = score tag key) keys)) = score tag key"
proof -
  have "filter (\<lambda>k. score tag k = score tag key) keys \<noteq> []"
    using assms by (auto simp: filter_empty_conv)
  then have "hd (filter (\<lambda>k. score tag k = score tag key) keys)
      \<in> set (filter (\<lambda>k. score tag k = score tag key) keys)"
    by (rule hd_in_set)
  then show ?thesis
    by simp
qed

lemma map_of_key: "k \<in> set (map fst kg) \<Longrightarrow> \<exists>v. map_of kg k = Some v \<and> (k, v) \<in> set kg"
  by (induction kg) auto

lemma fuzzy_match_genre_none:
  assumes "filter (\<lambda>k. fuzzy_threshold (config self) \<le> score tag k) (map fst (known_genres self)) = []"
  shows "fuzzy_match_genre self tag = None"
proof (cases "known_genres self")
  case Nil
  then show ?thesis
    by (simp add: fuzzy_match_genre_def extractOne_eq)
next
  case (Cons p ps)
  let ?keys = "map fst (known_genres self)"
  obtain r where r: "max_by_score (fst p, score tag (fst p)) (map (\<lambda>c. (c, score tag c)) (map fst ps)) = r"
    by simp
  from max_by_score_first_best [OF r] have "r \<in> set (map (\<lambda>c. (c, score tag c)) ?keys)"
    by (simp add: Cons)
  then obtain k where k: "k \<in> set ?keys" "r = (k, score tag k)"
    by auto
  have "\<not> fuzzy_threshold (config self) \<le> score tag k"
    using assms k(1) by (auto simp: filter_empty_conv)
  then show ?thesis
    using r k(2) by (simp add: fuzzy_match_genre_def extractOne_eq Cons)
qed

lemma fuzzy_match_genre_hit:
  assumes only: "filter (\<lambda>k. b \<le> score tag k) (map fst (known_genres self)) = [key]"
    and b: "score tag key = b" and thr: "fuzzy_threshold (config self) \<le> b"
  shows "fuzzy_match_genre self tag = map_of (known_genres self) key"
proof -
  let ?keys = "map fst (known_genres self)"
  have "key \<in> set (filter (\<lambda>k. b \<le> score tag k) ?keys)"
    unfolding only by simp
  then have key: "key \<in> set ?keys"
    by simp
  have best: "\<forall>k \<in> set ?keys. score tag k \<le> score tag key"
  proof
    fix k assume "k \<in> set ?keys"
    show "score tag k \<le> score tag key"
    proof (rule ccontr)
      assume "\<not> score tag k \<le> score tag key"
      then have "k \<in> set (filter (\<lambda>k. b \<le> score tag k) ?keys)"
        using \<open>k \<in> set ?keys\<close> b by simp
      then have "k = key"
        unfolding only by simp
      with \<open>\<not> score tag k \<le> score tag key\<close> show False
        by simp
    qed
  qed
  have "filter (\<lambda>k. score tag k = score tag key) ?keys
      = filter (\<lambda>k. score tag k = b) (filter (\<lambda>k. b \<le> score tag k) ?keys)"
    by (auto simp: b intro: filter_cong)
  also have "\<dots> = [key]"
    unfolding only by (simp add: b)
  finally show ?thesis
    using thr b by (simp add: fuzzy_match_genre_eq [OF key best])
qed


subsection \<open>Scores against the taxonomy of the source\<close>

lemma accented:
  "list_all (\<lambda>c. is_word c \<and> \<not> is_space c \<and> lower_char c = c)
     [CHR 0xF3, CHR 0xE1, CHR 0xF1]"
  by (simp add: char_eval)

lemmas process_eval = full_process_def lower_def strip_def char_lits
  accented [unfolded list_all_Cons_iff list_all_Nil_iff]

lemmas ratio_eval = fuzz_ratio_def matching_size.simps find_longest_match_def
  round_half_even_def Let_def

text \<open>Every key of the taxonomy with its processed form: a hyphen becomes a space.\<close>

lemma processed_taxonomy:
  "map (\<lambda>(k, v). (k, full_process k)) load_genre_taxonomy = [
   (''rock'', ''rock''), (''pop'', ''pop''), (''hip-hop'', ''hip hop''),
   (''hiphop'', ''hiphop''), (''hip hop'', ''hip hop''), (''electronic'', ''electronic''),
   (''jazz'', ''jazz''), (''blues'', ''blues''), (''country'', ''country''),
   (''classical'', ''classical''), (''reggae'', ''reggae''), (''metal'', ''metal''),
   (''punk'', ''punk''), (''folk'', ''folk''), (''indie'', ''indie''),
   (''alternative'', ''alternative''), (''rnb'', ''rnb''), (''soul'', ''soul''),
   (''funk'', ''funk''), (''house'', ''house''), (''techno'', ''techno''),
   (''dubstep'', ''dubstep''), (''ambient'', ''ambient''),
   (''experimental'', ''experimental''), (''trance'', ''trance''),
   (''drum and bass'', ''drum and bass''), (''dnb'', ''dnb''), (''breakbeat'', ''breakbeat''),
   (''garage'', ''garage''), (''trap'', ''trap''), (''drill'', ''drill''),
   (''grime'', ''grime''), (''synthwave'', ''synthwave''), (''vaporwave'', ''vaporwave''),
   (''chillwave'', ''chillwave''), (''darkwave'', ''darkwave''), (''new wave'', ''new wave''),
   (''post-punk'', ''post punk''), (''post-rock'', ''post rock''),
   (''shoegaze'', ''shoegaze''), (''dream pop'', ''dream pop''), (''britpop'', ''britpop''),
   (''grunge'', ''grunge''), (''emo'', ''emo''), (''screamo'', ''screamo''),
   (''hardcore'', ''hardcore''), (''metalcore'', ''metalcore''),
   (''deathcore'', ''deathcore''), (''black metal'', ''black metal''),
   (''death metal'', ''death metal''), (''thrash metal'', ''thrash metal''),
   (''heavy metal'', ''heavy metal''), (''power metal'', ''power metal''),
   (''progressive metal'', ''progressive metal''), (''doom metal'', ''doom metal''),
   (''sludge metal'', ''sludge metal''), (''stoner rock'', ''stoner rock''),
   (''psychedelic rock'', ''psychedelic rock''), (''garage rock'', ''garage rock''),
   (''surf rock'', ''surf rock''), (''rockabilly'', ''rockabilly''),
   (''skiffle'', ''skiffle''), (''bebop'', ''bebop''), (''swing'', ''swing''),
   (''big band'', ''big band''), (''smooth jazz'', ''smooth jazz''), (''fusion'', ''fusion''),
   (''free jazz'', ''free jazz''), (''cool jazz'', ''cool jazz''),
   (''hard bop'', ''hard bop''), (''delta blues'', ''delta blues''),
   (''chicago blues'', ''chicago blues''), (''electric blues'', ''electric blues''),
   (''rhythm and blues'', ''rhythm and blues''), (''motown'', ''motown''),
   (''neo-soul'', ''neo soul''), (''northern soul'', ''northern soul''),
   (''southern soul'', ''southern soul''), (''gospel'', ''gospel''),
   (''spiritual'', ''spiritual''), (''bluegrass'', ''bluegrass''),
   (''americana'', ''americana''), (''alt-country'', ''alt country''),
   (''outlaw country'', ''outlaw country''), (''honky-tonk'', ''honky tonk''),
   (''western swing'', ''western swing''), (''dancehall'', ''dancehall''),
   (''roots reggae'', ''roots reggae''), (''dub reggae'', ''dub reggae''),
   (''ska punk'', ''ska punk''), (''two-tone'', ''two tone''), (''calypso'', ''calypso''),
   (''soca'', ''soca''), (''salsa'', ''salsa''), (''merengue'', ''merengue''),
   (''bachata'', ''bachata''), (''cumbia'', ''cumbia''), (''reggaeton'', ''reggaeton''),
   (''latin pop'', ''latin pop''), (''bossa nova'', ''bossa nova''), (''samba'', ''samba''),
   ((''forr'' @ [CHR 0xF3]), (''forr'' @ [CHR 0xF3])), (''mpb'', ''mpb''),
   ((''tropic'' @ [CHR 0xE1] @ ''lia''), (''tropic'' @ [CHR 0xE1] @ ''lia'')),
   (''fado'', ''fado''), (''flamenco'', ''flamenco''), (''tango'', ''tango''),
   (''mariachi'', ''mariachi''), (''ranchera'', ''ranchera''),
   ((''norte'' @ [CHR 0xF1] @ ''o''), (''norte'' @ [CHR 0xF1] @ ''o'')),
   (''conjunto'', ''conjunto''), (''tejano'', ''tejano''), (''zydeco'', ''zydeco''),
   (''cajun'', ''cajun''), (''celtic'', ''celtic''),
   (''irish traditional'', ''irish traditional''),
   (''scottish traditional'', ''scottish traditional''), (''klezmer'', ''klezmer''),
   (''polka'', ''polka''), (''waltz'', ''waltz''), (''mazurka'', ''mazurka''),
   (''tarantella'', ''tarantella''), (''fandango'', ''fandango'')]"
  by (simp add: load_genre_taxonomy_def process_eval)

lemma filter_scores:
  assumes "full_process query = pq"
  shows "filter (\<lambda>k. b \<le> score query k) (map fst kg) =
     map fst (filter (\<lambda>(k, pk). b \<le> fuzz_ratio pq pk) (map (\<lambda>(k, v). (k, full_process k)) kg))"
  by (induction kg) (auto simp: score_def assms)

lemma scores_rockxy:
  "filter (\<lambda>k. 80 \<le> score ''rockxy'' k) (map fst load_genre_taxonomy) = [''rock'']"
proof -
  have "full_process ''rockxy'' = ''rockxy''"
    by (simp add: process_eval)
  then show ?thesis
    unfolding filter_scores [OF \<open>full_process ''rockxy'' = ''rockxy''\<close>] processed_taxonomy
    by (simp add: ratio_eval)
qed

lemma score_rockxy_rock: "score ''rockxy'' ''rock'' = 80"
  by (simp add: score_def process_eval ratio_eval)

lemma scores_progressive:
  "filter (\<lambda>k. 79 \<le> score ''progressive'' k) (map fst load_genre_taxonomy)
     = [''progressive metal'']"
proof -
  have "full_process ''progressive'' = ''progressive''"
    by (simp add: process_eval)
  then show ?thesis
    unfolding filter_scores [OF \<open>full_process ''progressive'' = ''progressive''\<close>]
      processed_taxonomy
    by (simp add: ratio_eval)
qed

lemma score_progressive: "score ''progressive'' ''progressive metal'' = 79"
  by (simp add: score_def process_eval ratio_eval)

text \<open>
  C5: let \<open>key\<close> be a taxonomy key of the best score for the tag. Then the fuzzy stage
  returns the canonical value of a key of that best score (the first one in the order of
  the taxonomy) if the best score is at least \<open>fuzzy_threshold\<close>, and nothing if it is
  below: a score equal to the threshold is accepted, a score one point below is rejected.
\<close>

theorem C5_fuzzy_threshold:
  assumes "key \<in> set (map fst (known_genres self))"
    and "\<forall>k \<in> set (map fst (known_genres self)). score tag k \<le> score tag key"
  shows "\<exists>best v. best \<in> set (map fst (known_genres self))
      \<and> score tag best = score tag key
      \<and> map_of (known_genres self) best = Some v
      \<and> fuzzy_match_genre self tag =
          (if fuzzy_threshold (config self) \<le> score tag key then Some v else None)"
proof -
  let ?best = "hd (filter (\<lambda>k. score tag k = score tag key) (map fst (known_genres self)))"
  have key: "?best \<in> set (map fst (known_genres self))"
    by (rule conjunct1 [OF first_best_is_key [OF assms(1)]])
  have same: "score tag ?best = score tag key"
    by (rule conjunct2 [OF first_best_is_key [OF assms(1)]])
  from map_of_key [OF key] obtain v where v: "map_of (known_genres self) ?best = Some v"
    by (elim exE conjE)
  have "fuzzy_match_genre self tag =
      (if fuzzy_threshold (config self) \<le> score tag key then Some v else None)"
    unfolding fuzzy_match_genre_eq [OF assms] v ..
  with key same v show ?thesis
    by (intro exI [of _ ?best] exI [of _ v] conjI)
qed

text \<open>
  With the default threshold 80 and the taxonomy of the source: \<^verbatim>\<open>rockxy\<close> scores exactly
  80 against \<^verbatim>\<open>rock\<close>, its best key, and is accepted; \<^verbatim>\<open>progressive\<close> scores 79 against
  its best key and is rejected.
\<close>

theorem C5_fuzzy_threshold_witness:
  "score ''rockxy'' ''rock'' = 80
   \<and> fuzzy_match_genre (GenreExtractor_init None) ''rockxy'' = Some ''rock''
   \<and> score ''progressive'' ''progressive metal'' = 79
   \<and> fuzzy_match_genre (GenreExtractor_init None) ''progressive'' = None"
proof -
  let ?self = "GenreExtractor_init None"
  let ?keys = "map fst (known_genres ?self)"
  have all_le: "\<forall>k \<in> set ?keys. score q k \<le> score q key"
    if "filter (\<lambda>k. score q key \<le> score q k) ?keys = [key]" for q key
  proof
    fix k assume k: "k \<in> set ?keys"
    show "score q k \<le> score q key"
    proof (rule ccontr)
      assume "\<not> score q k \<le> score q key"
      with k have "k \<in> set (filter (\<lambda>k. score q key \<le> score q k) ?keys)"
        by simp
      with that \<open>\<not> score q k \<le> score q key\<close> show False
        by simp
    qed
  qed
  have only: "best = key"
    if "filter (\<lambda>k. score q key \<le> score q k) ?keys = [key]"
      and "best \<in> set ?keys" and "score q best = score q key" for q key best
  proof -
    have "best \<in> set (filter (\<lambda>k. score q key \<le> score q k) ?keys)"
      using that(2,3) by simp
    then show ?thesis
      unfolding that(1) by simp
  qed
  have rock: "filter (\<lambda>k. score ''rockxy'' ''rock'' \<le> score ''rockxy'' k) ?keys = [''rock'']"
    using scores_rockxy by (simp add: score_rockxy_rock)
  have prog: "filter (\<lambda>k. score ''progressive'' ''progressive metal'' \<le> score ''progressive'' k) ?keys
      = [''progressive metal'']"
    using scores_progressive by (simp add: score_progressive)
  have rock_key: "''rock'' \<in> set ?keys" and prog_key: "''progressive metal'' \<in> set ?keys"
    by (simp_all add: load_genre_taxonomy_def)
  have "fuzzy_match_genre ?self ''rockxy'' = Some ''rock''"
  proof -
    from C5_fuzzy_threshold [OF rock_key all_le [OF rock]]
    obtain best v where best: "best \<in> set ?keys" "score ''rockxy'' best = score ''rockxy'' ''rock''"
      and v: "map_of (known_genres ?self) best = Some v"
      and res: "fuzzy_match_genre ?self ''rockxy'' =
        (if fuzzy_threshold (config ?self) \<le> score ''rockxy'' ''rock'' then Some v else None)"
      by blast
    have "best = ''rock''"
      using only [OF rock best] .
    with v have "v = ''rock''"
      by (simp add: load_genre_taxonomy_def)
    with res show ?thesis
      by (simp add: score_rockxy_rock)
  qed
  moreover have "fuzzy_match_genre ?self ''progressive'' = None"
  proof -
    from C5_fuzzy_threshold [OF prog_key all_le [OF prog]]
    obtain v where "fuzzy_match_genre ?self ''progressive'' =
        (if fuzzy_threshold (config ?self) \<le> score ''progressive'' ''progressive metal''
         then Some v else None)"
      by blast
    then show ?thesis
      by (simp add: score_progressive)
  qed
  ultimately show ?thesis
    by (simp add: score_rockxy_rock score_progressive)
qed


section \<open>Stage 3: keywords, context and the order of the strategies\<close>



lemma in_genre_family_loop_eq:
  "in_genre_family_loop families tag =
     list_ex (\<lambda>genre. str_in genre (lower tag)) (concat (map snd families))"
  by (induction families tag rule: in_genre_family_loop.induct) (auto simp: list_ex_iff)

lemma fuzzy_match_genre_value:
  assumes "fuzzy_match_genre self tag = Some g"
  shows "g \<in> snd ` set (known_genres self)"
proof -
  from assms obtain key where "map_of (known_genres self) key = Some g"
    by (auto simp: fuzzy_match_genre_def split: option.splits prod.splits if_splits)
  then have "(key, g) \<in> set (known_genres self)"
    by (rule map_of_SomeD)
  then show ?thesis
    by force
qed

lemma known_genre_value:
  assumes "is_known_genre self tag"
  shows "\<exists>v. map_of (known_genres self) tag = Some v \<and> v \<in> snd ` set (known_genres self)"
proof -
  from assms obtain v where v: "map_of (known_genres self) tag = Some v"
    by (auto simp: is_known_genre_def)
  then have "(tag, v) \<in> set (known_genres self)"
    by (rule map_of_SomeD)
  with v show ?thesis
    by force
qed

text \<open>
  C6: the resolver tries exact lookup, fuzzy match, keyword match and context match in
  this order and returns the result of the first that succeeds: the canonical value for
  the first two, the tag itself for the last two; it returns nothing exactly when all four
  fail. (No canonical value of the taxonomy is the empty string, which Python would take
  for a failure of the fuzzy match.)
\<close>

theorem C6_resolution_order:
  assumes "[] \<notin> snd ` set (known_genres self)"
  shows "(is_known_genre self tag \<longrightarrow>
            extract_genre_from_tag self tag all_tags = map_of (known_genres self) tag
            \<and> extract_genre_from_tag self tag all_tags \<noteq> None)
    \<and> (\<not> is_known_genre self tag \<and> fuzzy_match_genre self tag \<noteq> None \<longrightarrow>
            extract_genre_from_tag self tag all_tags = fuzzy_match_genre self tag)
    \<and> (\<not> is_known_genre self tag \<and> fuzzy_match_genre self tag = None
          \<and> is_genre_by_keywords self tag \<longrightarrow>
            extract_genre_from_tag self tag all_tags = Some tag)
    \<and> (\<not> is_known_genre self tag \<and> fuzzy_match_genre self tag = None
          \<and> \<not> is_genre_by_keywords self tag \<and> is_genre_by_context self tag all_tags \<longrightarrow>
            extract_genre_from_tag self tag all_tags = Some tag)
    \<and> (extract_genre_from_tag self tag all_tags = None \<longleftrightarrow>
            \<not> is_known_genre self tag \<and> fuzzy_match_genre self tag = None
            \<and> \<not> is_genre_by_keywords self tag \<and> \<not> is_genre_by_context self tag all_tags)"
proof (cases "is_known_genre self tag")
  case True
  with known_genre_value [OF True] show ?thesis
    by (auto simp: extract_genre_from_tag_def)
next
  case False
  show ?thesis
  proof (cases "fuzzy_match_genre self tag")
    case None
    with False show ?thesis
      by (simp add: extract_genre_from_tag_def truthy_def)
  next
    case (Some g)
    with fuzzy_match_genre_value [OF Some] assms have "g \<noteq> []"
      by blast
    with False Some show ?thesis
      by (simp add: extract_genre_from_tag_def truthy_def)
  qed
qed

section \<open>Stage 4: duplicates\<close>

text \<open>The elements of a list in the order of their first occurrence.\<close>

definition first_seen :: "'a list \<Rightarrow> 'a list" where
  "first_seen xs = rev (remdups (rev xs))"




lemma set_first_seen [simp]: "set (first_seen xs) = set xs"
  by (simp add: first_seen_def)

lemma distinct_first_seen [simp]: "distinct (first_seen xs)"
  by (simp add: first_seen_def)



section \<open>The pipeline as a whole\<close>

text \<open>What one tag contributes to the list of genres.\<close>

definition resolved :: "GenreExtractor \<Rightarrow> string list \<Rightarrow> string \<Rightarrow> string list" where
  "resolved self all_tags tag =
     (case extract_genre_from_tag self tag all_tags of
        None \<Rightarrow> []
      | Some genre \<Rightarrow> if genre \<noteq> [] then [genre] else [])"















subsection \<open>What a tag contributes, strategy by strategy\<close>


lemma resolved_fuzzy:
  "map_of (known_genres self) tag = None \<Longrightarrow> fuzzy_match_genre self tag = Some g \<Longrightarrow> g \<noteq> []
   \<Longrightarrow> resolved self all_tags tag = [g]"
  by (simp add: resolved_def extract_genre_from_tag_def is_known_genre_def truthy_def)

lemma resolved_keyword:
  "map_of (known_genres self) tag = None \<Longrightarrow> fuzzy_match_genre self tag = None
   \<Longrightarrow> is_genre_by_keywords self tag \<Longrightarrow> tag \<noteq> [] \<Longrightarrow> resolved self all_tags tag = [tag]"
  by (simp add: resolved_def extract_genre_from_tag_def is_known_genre_def truthy_def)

lemma resolved_none:
  "map_of (known_genres self) tag = None \<Longrightarrow> fuzzy_match_genre self tag = None
   \<Longrightarrow> \<not> is_genre_by_keywords self tag \<Longrightarrow> \<not> is_genre_by_context self tag all_tags
   \<Longrightarrow> resolved self all_tags tag = []"
  by (simp add: resolved_def extract_genre_from_tag_def is_known_genre_def truthy_def)

subsection \<open>Independence of the two unused configuration fields\<close>






section \<open>The default extractor on concrete tags\<close>






















end
